theory Spec2Isabelle
  imports Complex_Main "HOL-Library.Sublist"
begin

section \<open>Python string operations used by bot.py\<close>

text \<open>
  File names, MIME types, identifiers and exception texts are modelled as \<open>string\<close>. A
  transcript or a summary is a \<open>unicode\<close>, the list of the code points of the Python
  string, because \<open>s.strip()\<close> removes every Unicode whitespace character. The four
  operations that bot.py applies to strings are \<open>s.split('.')\<close>, \<open>s.strip()\<close>,
  \<open>s.startswith(p)\<close> and \<open>p in s\<close>.
\<close>

type_synonym unicode = "nat list"

fun split :: "char \<Rightarrow> string \<Rightarrow> string list" where
  "split sep [] = [[]]"
| "split sep (c # cs) =
     (if c = sep then [] # split sep cs
      else (case split sep cs of [] \<Rightarrow> [[c]] | w # ws \<Rightarrow> (c # w) # ws))"

definition isspace :: "nat \<Rightarrow> bool" where
  \<comment> \<open>the whitespace code points of Python: U+0009--000D, U+001C--0020, U+0085, U+00A0,
    U+1680, U+2000--200A, U+2028, U+2029, U+202F, U+205F, U+3000\<close>
  "isspace c =
     ((9 \<le> c \<and> c \<le> 13) \<or> (28 \<le> c \<and> c \<le> 32) \<or> c = 133 \<or> c = 160 \<or> c = 5760 \<or>
      (8192 \<le> c \<and> c \<le> 8202) \<or> c = 8232 \<or> c = 8233 \<or> c = 8239 \<or> c = 8287 \<or>
      c = 12288)"

definition strip :: "unicode \<Rightarrow> unicode" where
  "strip s = rev (dropWhile isspace (rev (dropWhile isspace s)))"

definition startswith :: "string \<Rightarrow> string \<Rightarrow> bool" where
  "startswith s p = prefix p s"

definition contains :: "string \<Rightarrow> string \<Rightarrow> bool" where
  \<comment> \<open>\<open>p in s\<close>\<close>
  "contains s p = sublist p s"

text \<open>Truthiness of an \<open>Optional[str]\<close>: \<open>None\<close> and the empty string are false.\<close>

definition truthy :: "string option \<Rightarrow> bool" where
  "truthy x = (case x of None \<Rightarrow> False | Some s \<Rightarrow> s \<noteq> [])"

text \<open>\<open>str(n)\<close> for an integer, as the f-string at line 99 renders the two identifiers.\<close>

definition digit :: "nat \<Rightarrow> char" where
  "digit d = ''0123456789'' ! d"

function str_nat :: "nat \<Rightarrow> string" where
  "str_nat n = (if n < 10 then [digit n] else str_nat (n div 10) @ [digit (n mod 10)])"
  by pat_completeness auto
termination
  by (relation "measure id") auto

declare str_nat.simps [simp del]

definition str_int :: "int \<Rightarrow> string" where
  "str_int i = (if i < 0 then CHR ''-'' # str_nat (nat (- i)) else str_nat (nat i))"

text \<open>Reading a decimal numeral back; it is used to show that \<open>str_nat\<close> is injective.\<close>

definition nat_of_str :: "string \<Rightarrow> nat" where
  "nat_of_str s = foldl (\<lambda>a c. 10 * a + (of_char c - 48)) 0 s"

section \<open>Incoming events\<close>

text \<open>
  The fields of \<open>update.message\<close> that bot.py and its message filters read. A voice,
  audio or document descriptor carries the remote file identifier, the optional declared
  file name and the optional MIME type. \<open>command\<close> is the name of the bot command that
  the platform marked at the start of the text, if there is one (a command addressed by name
  to another bot is left out).
\<close>

record attachment =
  file_id :: string
  file_name :: "string option"
  mime_type :: "string option"

record message =
  chat_id :: int
  message_id :: int
  msg_text :: "string option"
  command :: "string option"
  voice :: "attachment option"
  audio :: "attachment option"
  document :: "attachment option"

section \<open>handle\_voice, lines 70--92: attachment classification\<close>

datatype intake = Accept string string | Reject

definition classify :: "message \<Rightarrow> intake" where
  "classify m =
     (case voice m of
        Some v \<Rightarrow> Accept (file_id v) ''ogg''
      | None \<Rightarrow>
     (case audio m of
        Some a \<Rightarrow>
          Accept (file_id a)
            (if truthy (file_name a) then last (split CHR ''.'' (the (file_name a))) else ''mp3'')
      | None \<Rightarrow>
     (case document m of
        Some d \<Rightarrow>
          if \<not> startswith (case mime_type d of None \<Rightarrow> [] | Some t \<Rightarrow> t) ''audio/''
          then Reject
          else Accept (file_id d)
            (if truthy (file_name d) then last (split CHR ''.'' (the (file_name d))) else ''ogg'')
      | None \<Rightarrow> Reject)))"

section \<open>The outside world\<close>

text \<open>
  The fixed reply texts of bot.py are Russian sentences; each one is a constructor here.
  \<open>Result t th\<close> is the f-string of lines 134--140 with the transcript \<open>t\<close> and the
  theses \<open>th\<close> filled in. \<open>Unsupported\<close> is the text of lines 80--83 and 88--91,
  \<open>Other\<close> the text of \<open>handle_other\<close>.
\<close>

datatype reply =
    Welcome | Help | Unsupported | Other
  | Processing | NotRecognized | Result unicode unicode
  | ErrorGeneric | ErrorLowQuality

text \<open>An exception is known by its string representation \<open>str(e)\<close>.\<close>

datatype exc = Exception (str: string)

text \<open>
  The request of lines 121--129. \<open>SYSTEM_PROMPT\<close> is the module constant of lines
  28--39; \<open>ExtractTheses t\<close> is the user content of line 125, a fixed request line
  followed by the transcript \<open>t\<close>.
\<close>

datatype content = SYSTEM_PROMPT | ExtractTheses unicode

record chat_request =
  model :: string
  messages :: "(string \<times> content) list"
  temperature :: rat
  max_tokens :: nat

text \<open>
  \<open>download_to_drive\<close> either writes the file or raises; when it raises, the file may
  or may not have been created already.
\<close>

datatype download = Written | Failed exc bool

text \<open>
  Every awaited or remote call of \<open>handle_voice\<close> can raise. A \<open>world\<close> fixes the
  outcome of each of them for one invocation: \<open>None\<close> (or \<open>Inr\<close>) is a normal return,
  \<open>Some e\<close> (or \<open>Inl e\<close>) is the exception raised. \<open>completions_create\<close> stands for
  lines 121--131, the request together with the read of
  \<open>response.choices[0].message.content\<close>. Only exceptions derived from \<open>Exception\<close>
  are modelled, the ones that line 148 catches.
\<close>

record world =
  get_file :: "string \<Rightarrow> exc option"
  reply_text :: "reply \<Rightarrow> exc option"
  edit_text :: "reply \<Rightarrow> exc option"
  download_to_drive :: "string \<Rightarrow> download"
  transcriptions_create :: "string \<Rightarrow> exc + unicode"
  completions_create :: "chat_request \<Rightarrow> exc + unicode"

text \<open>
  What one invocation did: the calls it made, in order, the files of the working directory
  when it ended, and the exception that left the handler, if any.
\<close>

datatype event =
    GetFile string
  | ReplyText reply
  | EditText reply
  | Download string
  | OpenRead string
  | Transcribe string
  | Summarize chat_request
  | Remove string
  | LogError string

record run =
  trace :: "event list"
  files :: "string set"
  raised :: "exc option"

text \<open>The working directory is a set of paths; \<open>os.remove\<close> and \<open>open\<close> raise on a missing file.\<close>

definition os_remove :: "string \<Rightarrow> string set \<Rightarrow> exc + string set" where
  "os_remove p fs =
     (if p \<in> fs then Inr (fs - {p}) else Inl (Exception ''[Errno 2] No such file or directory''))"

definition open_rb :: "string \<Rightarrow> string set \<Rightarrow> exc option" where
  "open_rb p fs =
     (if p \<in> fs then None else Some (Exception ''[Errno 2] No such file or directory''))"

section \<open>handle\_voice, lines 94--159: the pipeline\<close>

definition file_path :: "message \<Rightarrow> string \<Rightarrow> string" where
  \<comment> \<open>line 99\<close>
  "file_path m ext =
     ''voice_'' @ str_int (chat_id m) @ ''_'' @ str_int (message_id m) @ ''.'' @ ext"

definition summary_request :: "unicode \<Rightarrow> chat_request" where
  \<comment> \<open>lines 121--129\<close>
  "summary_request t =
     \<lparr>model = ''gpt-4o-mini'',
      messages = [(''system'', SYSTEM_PROMPT), (''user'', ExtractTheses t)],
      temperature = 3 / 10,
      max_tokens = 1000\<rparr>"

definition error_message :: "exc \<Rightarrow> reply" where
  \<comment> \<open>lines 150--153\<close>
  "error_message e =
     (if contains (str e) ''Could not process audio'' then ErrorLowQuality else ErrorGeneric)"

definition emit :: "event \<Rightarrow> run \<Rightarrow> run" where
  "emit ev r = r\<lparr>trace := trace r @ [ev]\<rparr>"

definition except_block :: "world \<Rightarrow> string \<Rightarrow> exc \<Rightarrow> run \<Rightarrow> run" where
  \<comment> \<open>lines 148--159; \<open>file_path\<close> is always bound, it is the first statement of the try block\<close>
  "except_block w p e r =
     (let r1 = emit (EditText (error_message e)) (emit (LogError (str e)) r) in
      case edit_text w (error_message e) of
        Some e' \<Rightarrow> r1\<lparr>raised := Some e'\<rparr>
      | None \<Rightarrow>
          if p \<in> files r1 then
            (case os_remove p (files r1) of
               Inl e' \<Rightarrow> (emit (Remove p) r1)\<lparr>raised := Some e'\<rparr>
             | Inr fs \<Rightarrow> (emit (Remove p) r1)\<lparr>files := fs\<rparr>)
          else r1)"

definition remove_and_return :: "world \<Rightarrow> string \<Rightarrow> run \<Rightarrow> run" where
  \<comment> \<open>lines 117--118 and line 146, inside the try block\<close>
  "remove_and_return w p r =
     (case os_remove p (files r) of
        Inl e \<Rightarrow> except_block w p e (emit (Remove p) r)
      | Inr fs \<Rightarrow> (emit (Remove p) r)\<lparr>files := fs\<rparr>)"

definition try_block :: "world \<Rightarrow> string \<Rightarrow> run \<Rightarrow> run" where
  \<comment> \<open>lines 100--146\<close>
  "try_block w p r =
     (let r1 = emit (Download p) r in
      case download_to_drive w p of
        Failed e wrote \<Rightarrow>
          except_block w p e (if wrote then r1\<lparr>files := insert p (files r1)\<rparr> else r1)
      | Written \<Rightarrow>
     (let r2 = emit (OpenRead p) (r1\<lparr>files := insert p (files r1)\<rparr>) in
      case open_rb p (files r2) of
        Some e \<Rightarrow> except_block w p e r2
      | None \<Rightarrow>
     (let r3 = emit (Transcribe p) r2 in
      case transcriptions_create w p of
        Inl e \<Rightarrow> except_block w p e r3
      | Inr transcript_text \<Rightarrow>
          if transcript_text = [] \<or> strip transcript_text = [] then
            (let r4 = emit (EditText NotRecognized) r3 in
             case edit_text w NotRecognized of
               Some e \<Rightarrow> except_block w p e r4
             | None \<Rightarrow> remove_and_return w p r4)
          else
            (let r4 = emit (Summarize (summary_request transcript_text)) r3 in
             case completions_create w (summary_request transcript_text) of
               Inl e \<Rightarrow> except_block w p e r4
             | Inr theses \<Rightarrow>
                 (let r5 = emit (EditText (Result transcript_text theses)) r4 in
                  case edit_text w (Result transcript_text theses) of
                    Some e \<Rightarrow> except_block w p e r5
                  | None \<Rightarrow> remove_and_return w p r5)))))"

definition send_once :: "world \<Rightarrow> reply \<Rightarrow> run \<Rightarrow> run" where
  \<comment> \<open>\<open>await update.message.reply_text(...)\<close> as the last statement of a handler\<close>
  "send_once w x r = (emit (ReplyText x) r)\<lparr>raised := reply_text w x\<rparr>"

definition handle_voice :: "world \<Rightarrow> string set \<Rightarrow> message \<Rightarrow> run" where
  "handle_voice w fs m =
     (let r0 = \<lparr>trace = [], files = fs, raised = None\<rparr> in
      case classify m of
        Reject \<Rightarrow> send_once w Unsupported r0
      | Accept fid file_extension \<Rightarrow>
     (let r1 = emit (GetFile fid) r0 in
      case get_file w fid of
        Some e \<Rightarrow> r1\<lparr>raised := Some e\<rparr>
      | None \<Rightarrow>
     (let r2 = emit (ReplyText Processing) r1 in
      case reply_text w Processing of
        Some e \<Rightarrow> r2\<lparr>raised := Some e\<rparr>
      | None \<Rightarrow> try_block w (file_path m file_extension) r2)))"

definition start :: "world \<Rightarrow> string set \<Rightarrow> message \<Rightarrow> run" where
  "start w fs m = send_once w Welcome \<lparr>trace = [], files = fs, raised = None\<rparr>"

definition help_command :: "world \<Rightarrow> string set \<Rightarrow> message \<Rightarrow> run" where
  "help_command w fs m = send_once w Help \<lparr>trace = [], files = fs, raised = None\<rparr>"

definition handle_other :: "world \<Rightarrow> string set \<Rightarrow> message \<Rightarrow> run" where
  "handle_other w fs m = send_once w Other \<lparr>trace = [], files = fs, raised = None\<rparr>"

section \<open>main, lines 170--193: configuration check and handler registration\<close>

text \<open>
  The message filters of the telegram library that line 187--189 name: \<open>VOICE\<close>,
  \<open>AUDIO\<close> and \<open>TEXT\<close> test that the field of that name is set (and, for the text,
  not empty); \<open>Document.AUDIO\<close> tests that the message has a document whose MIME type
  is set and starts with \<open>audio/\<close>; \<open>COMMAND\<close> tests that the text starts with a bot
  command. \<open>|\<close>, \<open>&\<close> and \<open>~\<close> combine filters.
\<close>

datatype filter_t =
    VOICE | AUDIO | Document_AUDIO | TEXT | COMMAND
  | Or filter_t filter_t | And filter_t filter_t | Not filter_t

fun check_filter :: "filter_t \<Rightarrow> message \<Rightarrow> bool" where
  "check_filter VOICE m = (voice m \<noteq> None)"
| "check_filter AUDIO m = (audio m \<noteq> None)"
| "check_filter Document_AUDIO m =
     (case document m of
        None \<Rightarrow> False
      | Some d \<Rightarrow> truthy (mime_type d) \<and> startswith (the (mime_type d)) ''audio/'')"
| "check_filter TEXT m = truthy (msg_text m)"
| "check_filter COMMAND m = (truthy (msg_text m) \<and> command m \<noteq> None)"
| "check_filter (Or f g) m = (check_filter f m \<or> check_filter g m)"
| "check_filter (And f g) m = (check_filter f m \<and> check_filter g m)"
| "check_filter (Not f) m = (\<not> check_filter f m)"

datatype callback = Start | HelpCommand | HandleVoice | HandleOther

datatype handler = CommandHandler string callback | MessageHandler filter_t callback

fun check_update :: "handler \<Rightarrow> message \<Rightarrow> callback option" where
  "check_update (CommandHandler c cb) m =
     (if truthy (msg_text m) \<and> command m = Some c then Some cb else None)"
| "check_update (MessageHandler f cb) m = (if check_filter f m then Some cb else None)"

text \<open>All handlers are in one group: the first one that accepts the update handles it.\<close>

fun dispatch :: "handler list \<Rightarrow> message \<Rightarrow> callback option" where
  "dispatch [] m = None"
| "dispatch (h # hs) m =
     (case check_update h m of Some cb \<Rightarrow> Some cb | None \<Rightarrow> dispatch hs m)"

definition run_callback :: "callback \<Rightarrow> world \<Rightarrow> string set \<Rightarrow> message \<Rightarrow> run" where
  "run_callback cb w fs m =
     (case cb of
        Start \<Rightarrow> start w fs m
      | HelpCommand \<Rightarrow> help_command w fs m
      | HandleVoice \<Rightarrow> handle_voice w fs m
      | HandleOther \<Rightarrow> handle_other w fs m)"

definition process_update :: "handler list \<Rightarrow> world \<Rightarrow> string set \<Rightarrow> message \<Rightarrow> run" where
  "process_update hs w fs m =
     (case dispatch hs m of
        None \<Rightarrow> \<lparr>trace = [], files = fs, raised = None\<rparr>
      | Some cb \<Rightarrow> run_callback cb w fs m)"

text \<open>
  \<open>main\<close> reads the environment (\<open>os.getenv\<close> gives \<open>None\<close> for a variable that is
  not set), raises \<open>ValueError\<close> or builds the application, registers the handlers and
  enters \<open>run_polling\<close>. \<open>ValueError v\<close> is the error whose text says that variable
  \<open>v\<close> is not set.
\<close>

datatype config_error = ValueError string

datatype startup_event =
    BuildApplication string
  | AddHandler handler
  | Print
  | RunPolling

record startup =
  steps :: "startup_event list"
  failure :: "config_error option"

definition handlers :: "handler list" where
  \<comment> \<open>lines 185--189\<close>
  "handlers =
     [CommandHandler ''start'' Start,
      CommandHandler ''help'' HelpCommand,
      MessageHandler (Or VOICE AUDIO) HandleVoice,
      MessageHandler Document_AUDIO HandleVoice,
      MessageHandler (And TEXT (Not COMMAND)) HandleOther]"

definition main :: "(string \<rightharpoonup> string) \<Rightarrow> startup" where
  "main getenv =
     (let token = getenv ''TELEGRAM_BOT_TOKEN'' in
      if \<not> truthy token then
        \<lparr>steps = [], failure = Some (ValueError ''TELEGRAM_BOT_TOKEN'')\<rparr>
      else if \<not> truthy (getenv ''OPENAI_API_KEY'') then
        \<lparr>steps = [], failure = Some (ValueError ''OPENAI_API_KEY'')\<rparr>
      else
        \<lparr>steps = BuildApplication (the token) # map AddHandler handlers @ [Print, RunPolling],
         failure = None\<rparr>)"

text \<open>One incoming event, handled by the process that \<open>main\<close> started (if it did).\<close>

definition serve :: "(string \<rightharpoonup> string) \<Rightarrow> world \<Rightarrow> string set \<Rightarrow> message \<Rightarrow> run" where
  "serve getenv w fs m =
     (if RunPolling \<in> set (steps (main getenv))
      then process_update [h. AddHandler h \<leftarrow> steps (main getenv)] w fs m
      else \<lparr>trace = [], files = fs, raised = None\<rparr>)"

section \<open>Reading a trace\<close>

fun is_reply :: "event \<Rightarrow> bool" where
  "is_reply (ReplyText x) = True"
| "is_reply ev = False"

fun is_edit :: "event \<Rightarrow> bool" where
  "is_edit (EditText x) = True"
| "is_edit ev = False"

fun is_log_error :: "event \<Rightarrow> bool" where
  "is_log_error (LogError x) = True"
| "is_log_error ev = False"

fun is_summarize :: "event \<Rightarrow> bool" where
  "is_summarize (Summarize x) = True"
| "is_summarize ev = False"

text \<open>An edit of the Status Reply that the platform accepted.\<close>

definition accepted_edit :: "world \<Rightarrow> event \<Rightarrow> bool" where
  "accepted_edit w ev = (case ev of EditText x \<Rightarrow> edit_text w x = None | _ \<Rightarrow> False)"

text \<open>The local path that a call works on.\<close>

fun path_of :: "event \<Rightarrow> string option" where
  "path_of (Download p) = Some p"
| "path_of (OpenRead p) = Some p"
| "path_of (Transcribe p) = Some p"
| "path_of (Remove p) = Some p"
| "path_of ev = None"

text \<open>The run after a successful download, the open and the transcription call (lines 100--108).\<close>

definition opened :: "string \<Rightarrow> run \<Rightarrow> run" where
  "opened p r =
     emit (Transcribe p) (emit (OpenRead p) ((emit (Download p) r)\<lparr>files := insert p (files r)\<rparr>))"

section \<open>Sample events, worlds and environments\<close>

definition voice_msg :: message where
  "voice_msg =
     \<lparr>chat_id = 7, message_id = 42, msg_text = None, command = None,
      voice = Some \<lparr>file_id = ''v1'', file_name = Some ''memo.mp3'', mime_type = Some ''audio/ogg''\<rparr>,
      audio = None, document = None\<rparr>"

definition audio_msg :: "string option \<Rightarrow> message" where
  "audio_msg fn =
     \<lparr>chat_id = 7, message_id = 42, msg_text = None, command = None, voice = None,
      audio = Some \<lparr>file_id = ''a1'', file_name = fn, mime_type = Some ''audio/x-wav''\<rparr>,
      document = None\<rparr>"

definition later_msg :: message where
  "later_msg = (audio_msg None)\<lparr>message_id := 43\<rparr>"

definition document_msg :: "string option \<Rightarrow> string option \<Rightarrow> message" where
  "document_msg fn mt =
     \<lparr>chat_id = 7, message_id = 42, msg_text = None, command = None, voice = None, audio = None,
      document = Some \<lparr>file_id = ''d1'', file_name = fn, mime_type = mt\<rparr>\<rparr>"

text \<open>
  A world in which every call succeeds; the transcript is \<open>hi\<close> and the summary is
  \<open>1.\<close>, as code points.
\<close>

definition calm :: world where
  "calm =
     \<lparr>get_file = (\<lambda>fid. None), reply_text = (\<lambda>x. None), edit_text = (\<lambda>x. None),
      download_to_drive = (\<lambda>p. Written),
      transcriptions_create = (\<lambda>p. Inr [104, 105]),
      completions_create = (\<lambda>req. Inr [49, 46])\<rparr>"


text \<open>The transcription service rejects the recording.\<close>

definition noisy :: world where
  "noisy =
     calm\<lparr>transcriptions_create := (\<lambda>p. Inl (Exception ''Error code: 400 - Could not process audio''))\<rparr>"

text \<open>The transcription service cannot be reached.\<close>

definition offline :: world where
  "offline = calm\<lparr>transcriptions_create := (\<lambda>p. Inl (Exception ''Connection error.''))\<rparr>"

text \<open>The network goes down after the download: the transcription call and every edit raise.\<close>

definition outage :: world where
  "outage =
     calm\<lparr>transcriptions_create := (\<lambda>p. Inl (Exception ''Connection error.'')),
          edit_text := (\<lambda>x. Some (Exception ''Timed out''))\<rparr>"



text \<open>The transcription service rejects the recording, and the platform refuses every edit.\<close>

definition cut_off :: world where
  "cut_off = noisy\<lparr>edit_text := (\<lambda>x. Some (Exception ''Timed out''))\<rparr>"

text \<open>The platform refuses to hand out the file, as it does for a file above its size limit.\<close>

definition too_big :: world where
  "too_big = calm\<lparr>get_file := (\<lambda>fid. Some (Exception ''File is too big''))\<rparr>"

definition both_secrets :: "string \<rightharpoonup> string" where
  "both_secrets = [''TELEGRAM_BOT_TOKEN'' \<mapsto> ''123:abc'', ''OPENAI_API_KEY'' \<mapsto> ''sk-1'']"

definition token_only :: "string \<rightharpoonup> string" where
  "token_only = [''TELEGRAM_BOT_TOKEN'' \<mapsto> ''123:abc'']"

definition key_only :: "string \<rightharpoonup> string" where
  "key_only = [''OPENAI_API_KEY'' \<mapsto> ''sk-1'']"

section \<open>Facts about the string operations\<close>

lemma split_not_Nil: "split sep s \<noteq> []"
  by (induction s) (auto split: list.splits)

lemma split_no_sep: "sep \<notin> set s \<Longrightarrow> split sep s = [s]"
  by (induction s) auto

lemma last_split_append: "last (split sep (xs @ sep # ys)) = last (split sep ys)"
proof (induction xs)
  case Nil
  then show ?case by (simp add: split_not_Nil)
next
  case (Cons x xs)
  obtain w ws where sp: "split sep (xs @ sep # ys) = w # ws"
    using split_not_Nil [of sep "xs @ sep # ys"] by (cases "split sep (xs @ sep # ys)") auto
  have ws: "ws \<noteq> []"
  proof
    assume "ws = []"
    then have "split sep (xs @ sep # ys) = [w]" using sp by simp
    moreover have "length (split sep (xs @ sep # ys)) \<ge> 2"
      by (induction xs) (auto simp: split_not_Nil split: list.splits intro: Suc_leI)
    ultimately show False by simp
  qed
  show ?case using Cons sp ws by (auto simp: split_not_Nil)
qed

lemma digit_cases: "d < 10 \<Longrightarrow> d \<in> {0, 1, 2, 3, 4, 5, 6, 7, 8, 9 :: nat}"
  by auto

lemma digit_code: "d < 10 \<Longrightarrow> of_char (digit d) = 48 + d"
  using digit_cases [of d] by (auto simp: digit_def)

lemma digit_in: "d < 10 \<Longrightarrow> digit d \<in> set ''0123456789''"
  using digit_cases [of d] by (auto simp: digit_def)

lemma str_nat_chars: "set (str_nat n) \<subseteq> set ''0123456789''"
proof (induction n rule: str_nat.induct)
  case (1 n)
  show ?case
  proof (cases "n < 10")
    case True
    then show ?thesis using digit_in [of n] by (subst str_nat.simps) simp
  next
    case False
    have "n mod 10 < 10" by simp
    then have "digit (n mod 10) \<in> set ''0123456789''" by (rule digit_in)
    then show ?thesis using 1 False by (subst str_nat.simps) simp
  qed
qed

lemma nat_of_str_snoc: "nat_of_str (s @ [c]) = 10 * nat_of_str s + (of_char c - 48)"
  by (simp add: nat_of_str_def)

lemma nat_of_str_str_nat: "nat_of_str (str_nat n) = n"
proof (induction n rule: str_nat.induct)
  case (1 n)
  show ?case
  proof (cases "n < 10")
    case True
    then show ?thesis
      by (subst str_nat.simps) (simp add: nat_of_str_def digit_code)
  next
    case False
    have "n mod 10 < 10" by simp
    then have d: "of_char (digit (n mod 10)) = 48 + n mod 10" by (rule digit_code)
    have "nat_of_str (str_nat n) = 10 * nat_of_str (str_nat (n div 10)) + n mod 10"
      using False by (subst str_nat.simps) (simp add: nat_of_str_snoc d)
    then show ?thesis using 1 False by simp
  qed
qed

lemma str_nat_inj: "str_nat a = str_nat b \<Longrightarrow> a = b"
  by (metis nat_of_str_str_nat)

lemma str_nat_not_Nil: "str_nat n \<noteq> []"
  by (subst str_nat.simps) simp

lemma str_nat_no_minus: "CHR ''-'' \<notin> set (str_nat n)"
  using str_nat_chars [of n] by fastforce

lemma str_int_inj: "str_int a = str_int b \<Longrightarrow> a = b"
proof -
  assume eq: "str_int a = str_int b"
  have no_minus: "\<And>n s. str_nat n \<noteq> CHR ''-'' # s"
  proof
    fix n s assume "str_nat n = CHR ''-'' # s"
    then have "CHR ''-'' \<in> set (str_nat n)" by simp
    then show False using str_nat_no_minus by blast
  qed
  show ?thesis
  proof (cases "a < 0"; cases "b < 0")
    assume "a < 0" "b < 0"
    then show ?thesis using eq str_nat_inj [of "nat (- a)" "nat (- b)"] by (simp add: str_int_def)
  next
    assume "a < 0" "\<not> b < 0"
    then show ?thesis using eq no_minus [of "nat b" "str_nat (nat (- a))"] by (simp add: str_int_def)
  next
    assume "\<not> a < 0" "b < 0"
    then show ?thesis using eq no_minus [of "nat a" "str_nat (nat (- b))"] by (simp add: str_int_def)
  next
    assume "\<not> a < 0" "\<not> b < 0"
    then show ?thesis using eq str_nat_inj [of "nat a" "nat b"] by (simp add: str_int_def)
  qed
qed

lemma str_nat_avoids: "c \<notin> set ''0123456789'' \<Longrightarrow> c \<notin> set (str_nat n)"
  using str_nat_chars [of n] by blast

lemma str_int_no_underscore: "CHR ''_'' \<notin> set (str_int i)"
  by (simp add: str_int_def str_nat_avoids)

lemma str_int_no_dot: "CHR ''.'' \<notin> set (str_int i)"
  by (simp add: str_int_def str_nat_avoids)

lemma append_sep_eq:
  "xs @ a # ys = xs' @ a # ys' \<Longrightarrow> a \<notin> set xs \<Longrightarrow> a \<notin> set xs' \<Longrightarrow> xs = xs' \<and> ys = ys'"
proof (induction xs arbitrary: xs')
  case Nil
  then show ?case by (cases xs') auto
next
  case (Cons x xs)
  then show ?case by (cases xs') auto
qed

lemma file_path_inj:
  "file_path m e = file_path m' e' \<Longrightarrow>
     chat_id m = chat_id m' \<and> message_id m = message_id m' \<and> e = e'"
proof -
  assume "file_path m e = file_path m' e'"
  then have eq: "str_int (chat_id m) @ CHR ''_'' # (str_int (message_id m) @ CHR ''.'' # e) =
      str_int (chat_id m') @ CHR ''_'' # (str_int (message_id m') @ CHR ''.'' # e')"
    by (simp add: file_path_def)
  note u = str_int_no_underscore
  note d = str_int_no_dot
  from append_sep_eq [OF eq u u]
  have c: "str_int (chat_id m) = str_int (chat_id m')"
    and r: "str_int (message_id m) @ CHR ''.'' # e = str_int (message_id m') @ CHR ''.'' # e'"
    by auto
  from append_sep_eq [OF r d d] c show ?thesis by (auto dest: str_int_inj)
qed

lemma str_nat_small: "n < 10 \<Longrightarrow> str_nat n = [digit n]"
  by (subst str_nat.simps) simp

lemma str_nat_big: "\<not> n < 10 \<Longrightarrow> str_nat n = str_nat (n div 10) @ [digit (n mod 10)]"
  by (subst str_nat.simps) simp

lemma last_split: "last (split sep s) = rev (takeWhile (\<lambda>c. c \<noteq> sep) (rev s))"
proof (cases "sep \<in> set s")
  case False
  have tw: "takeWhile (\<lambda>c. c \<noteq> sep) (rev s) = rev s"
    by (rule takeWhile_eq_all_conv [THEN iffD2]) (use False in auto)
  show ?thesis unfolding tw by (simp add: split_no_sep False)
next
  case True
  then obtain pre ext where s: "s = pre @ sep # ext" and n: "sep \<notin> set ext"
    by (auto dest: split_list_last)
  have "takeWhile (\<lambda>c. c \<noteq> sep) (rev ext @ sep # rev pre) = rev ext"
    using n by (simp add: takeWhile_append)
  then show ?thesis using n by (simp add: s last_split_append split_no_sep)
qed

lemmas str_int_eval = str_int_def str_nat_small str_nat_big digit_def


lemma strip_hello: "strip [104, 105] \<noteq> []"
  by (simp add: strip_def isspace_def)

lemma signature_found:
  "contains ''Error code: 400 - Could not process audio'' ''Could not process audio''"
  unfolding contains_def by code_simp

lemma signature_not_found: "\<not> contains ''Connection error.'' ''Could not process audio''"
  unfolding contains_def by code_simp

section \<open>Facts about the classification\<close>

lemma classify_voice: "voice m = Some v \<Longrightarrow> classify m = Accept (file_id v) ''ogg''"
  by (simp add: classify_def)

lemma classify_audio:
  "voice m = None \<Longrightarrow> audio m = Some a \<Longrightarrow>
     classify m = Accept (file_id a)
       (if truthy (file_name a) then last (split CHR ''.'' (the (file_name a))) else ''mp3'')"
  by (simp add: classify_def)

lemma classify_document:
  "voice m = None \<Longrightarrow> audio m = None \<Longrightarrow> document m = Some d \<Longrightarrow>
     mime_type d = Some t \<Longrightarrow> startswith t ''audio/'' \<Longrightarrow>
     classify m = Accept (file_id d)
       (if truthy (file_name d) then last (split CHR ''.'' (the (file_name d))) else ''ogg'')"
  by (simp add: classify_def)

lemma classify_other_document:
  "voice m = None \<Longrightarrow> audio m = None \<Longrightarrow> document m = Some d \<Longrightarrow>
     \<not> startswith (case mime_type d of None \<Rightarrow> [] | Some t \<Rightarrow> t) ''audio/'' \<Longrightarrow>
     classify m = Reject"
  by (simp add: classify_def)

lemma sample_path: "file_path (audio_msg fn) ext = ''voice_7_42.'' @ ext"
  by (simp add: file_path_def audio_msg_def str_int_eval)

lemma sample_classify: "classify (audio_msg None) = Accept ''a1'' ''mp3''"
  by (simp add: classify_def audio_msg_def truthy_def)

section \<open>Facts about the pipeline\<close>

lemma strip_Nil: "strip [] = []" by (simp add: strip_def)

lemma emit_sel:
  "trace (emit ev r) = trace r @ [ev]" "files (emit ev r) = files r" "raised (emit ev r) = raised r"
  by (simp_all add: emit_def)

lemma except_block_sel:
  "trace (except_block w p e r) =
     trace r @ [LogError (str e), EditText (error_message e)] @
       (if edit_text w (error_message e) = None \<and> p \<in> files r then [Remove p] else [])"
  "files (except_block w p e r) =
     (if edit_text w (error_message e) = None then files r - {p} else files r)"
  "raised (except_block w p e r) =
     (case edit_text w (error_message e) of Some e' \<Rightarrow> Some e' | None \<Rightarrow> raised r)"
  by (auto simp: except_block_def os_remove_def emit_def Let_def split: option.splits)

lemma remove_and_return_sel:
  assumes "p \<in> files r"
  shows "trace (remove_and_return w p r) = trace r @ [Remove p]"
    "files (remove_and_return w p r) = files r - {p}"
    "raised (remove_and_return w p r) = raised r"
  using assms by (simp_all add: remove_and_return_def os_remove_def emit_def)

lemmas sel = emit_sel except_block_sel remove_and_return_sel

lemma try_download_failed:
  "download_to_drive w p = Failed e wrote \<Longrightarrow>
   try_block w p r =
     except_block w p e (if wrote then (emit (Download p) r)\<lparr>files := insert p (files r)\<rparr>
                         else emit (Download p) r)"
  by (simp add: try_block_def Let_def emit_sel)

lemma opened_sel:
  "trace (opened p r) = trace r @ [Download p, OpenRead p, Transcribe p]"
  "files (opened p r) = insert p (files r)" "raised (opened p r) = raised r"
  by (simp_all add: opened_def emit_def)

lemma try_transcribe_failed:
  "download_to_drive w p = Written \<Longrightarrow> transcriptions_create w p = Inl e \<Longrightarrow>
   try_block w p r = except_block w p e (opened p r)"
  by (simp add: try_block_def Let_def emit_sel open_rb_def opened_def)

lemma try_empty:
  "download_to_drive w p = Written \<Longrightarrow> transcriptions_create w p = Inr t \<Longrightarrow> strip t = [] \<Longrightarrow>
   try_block w p r =
     (case edit_text w NotRecognized of
        Some e \<Rightarrow> except_block w p e (emit (EditText NotRecognized) (opened p r))
      | None \<Rightarrow> remove_and_return w p (emit (EditText NotRecognized) (opened p r)))"
  by (simp add: try_block_def Let_def emit_sel open_rb_def opened_def split: option.split)

lemma try_summarize_failed:
  "download_to_drive w p = Written \<Longrightarrow> transcriptions_create w p = Inr t \<Longrightarrow> strip t \<noteq> [] \<Longrightarrow>
   completions_create w (summary_request t) = Inl e \<Longrightarrow>
   try_block w p r = except_block w p e (emit (Summarize (summary_request t)) (opened p r))"
  by (auto simp: try_block_def Let_def emit_sel open_rb_def opened_def strip_Nil)

lemma try_summarized:
  "download_to_drive w p = Written \<Longrightarrow> transcriptions_create w p = Inr t \<Longrightarrow> strip t \<noteq> [] \<Longrightarrow>
   completions_create w (summary_request t) = Inr th \<Longrightarrow>
   try_block w p r =
     (case edit_text w (Result t th) of
        Some e \<Rightarrow> except_block w p e
          (emit (EditText (Result t th)) (emit (Summarize (summary_request t)) (opened p r)))
      | None \<Rightarrow> remove_and_return w p
          (emit (EditText (Result t th)) (emit (Summarize (summary_request t)) (opened p r))))"
  by (auto simp: try_block_def Let_def emit_sel open_rb_def opened_def strip_Nil split: option.split)

lemma handle_voice_started:
  "classify m = Accept fid ext \<Longrightarrow> get_file w fid = None \<Longrightarrow> reply_text w Processing = None \<Longrightarrow>
   handle_voice w fs m =
     try_block w (file_path m ext)
       \<lparr>trace = [GetFile fid, ReplyText Processing], files = fs, raised = None\<rparr>"
  by (simp add: handle_voice_def emit_def)

lemma handle_voice_rejected:
  "classify m = Reject \<Longrightarrow>
   handle_voice w fs m = \<lparr>trace = [ReplyText Unsupported], files = fs, raised = reply_text w Unsupported\<rparr>"
  by (simp add: handle_voice_def send_once_def emit_def)

lemma handle_voice_no_file:
  "classify m = Accept fid ext \<Longrightarrow> get_file w fid = Some e \<Longrightarrow>
   handle_voice w fs m = \<lparr>trace = [GetFile fid], files = fs, raised = Some e\<rparr>"
  by (simp add: handle_voice_def emit_def)

lemma handle_voice_no_ack:
  "classify m = Accept fid ext \<Longrightarrow> get_file w fid = None \<Longrightarrow> reply_text w Processing = Some e \<Longrightarrow>
   handle_voice w fs m =
     \<lparr>trace = [GetFile fid, ReplyText Processing], files = fs, raised = Some e\<rparr>"
  by (simp add: handle_voice_def emit_def)

lemma handle_voice_cases
  [case_names rejected no_file no_ack download_failed transcribe_failed empty summarize_failed summarized]:
  obtains
    "classify m = Reject"
  | fid ext e where "classify m = Accept fid ext" "get_file w fid = Some e"
  | fid ext e where "classify m = Accept fid ext" "get_file w fid = None"
      "reply_text w Processing = Some e"
  | fid ext e wrote where "classify m = Accept fid ext" "get_file w fid = None"
      "reply_text w Processing = None" "download_to_drive w (file_path m ext) = Failed e wrote"
  | fid ext e where "classify m = Accept fid ext" "get_file w fid = None"
      "reply_text w Processing = None" "download_to_drive w (file_path m ext) = Written"
      "transcriptions_create w (file_path m ext) = Inl e"
  | fid ext t where "classify m = Accept fid ext" "get_file w fid = None"
      "reply_text w Processing = None" "download_to_drive w (file_path m ext) = Written"
      "transcriptions_create w (file_path m ext) = Inr t" "strip t = []"
  | fid ext t e where "classify m = Accept fid ext" "get_file w fid = None"
      "reply_text w Processing = None" "download_to_drive w (file_path m ext) = Written"
      "transcriptions_create w (file_path m ext) = Inr t" "strip t \<noteq> []"
      "completions_create w (summary_request t) = Inl e"
  | fid ext t th where "classify m = Accept fid ext" "get_file w fid = None"
      "reply_text w Processing = None" "download_to_drive w (file_path m ext) = Written"
      "transcriptions_create w (file_path m ext) = Inr t" "strip t \<noteq> []"
      "completions_create w (summary_request t) = Inr th"
proof (cases "classify m")
  case Reject
  then show ?thesis using that(1) by blast
next
  case (Accept fid ext)
  show ?thesis
  proof (cases "get_file w fid")
    case (Some e)
    then show ?thesis using Accept that(2) by blast
  next
    case None
    note gf = None
    show ?thesis
    proof (cases "reply_text w Processing")
      case (Some e)
      then show ?thesis using Accept gf that(3) by blast
    next
      case None
      note ack = None
      show ?thesis
      proof (cases "download_to_drive w (file_path m ext)")
        case (Failed e wrote)
        then show ?thesis using Accept gf ack that(4) by blast
      next
        case Written
        show ?thesis
        proof (cases "transcriptions_create w (file_path m ext)")
          case (Inl e)
          then show ?thesis using Accept gf ack Written that(5) by blast
        next
          case (Inr t)
          show ?thesis
          proof (cases "strip t = []")
            case True
            then show ?thesis using Accept gf ack Written Inr that(6) by blast
          next
            case False
            show ?thesis
            proof (cases "completions_create w (summary_request t)")
              case (Inl e)
              then show ?thesis using Accept gf ack Written Inr False that(7) by blast
            next
              case (Inr th)
              then show ?thesis
                using Accept gf ack Written \<open>transcriptions_create w (file_path m ext) = Inr t\<close>
                  False that(8) by blast
            qed
          qed
        qed
      qed
    qed
  qed
qed

lemma calm_run:
  "handle_voice calm {} (audio_msg None) =
     \<lparr>trace = [GetFile ''a1'', ReplyText Processing, Download ''voice_7_42.mp3'',
        OpenRead ''voice_7_42.mp3'', Transcribe ''voice_7_42.mp3'',
        Summarize (summary_request [104, 105]),
        EditText (Result [104, 105] [49, 46]), Remove ''voice_7_42.mp3''],
      files = {}, raised = None\<rparr>"
proof -
  have "handle_voice calm {} (audio_msg None) =
      remove_and_return calm ''voice_7_42.mp3''
        (emit (EditText (Result [104, 105] [49, 46]))
          (emit (Summarize (summary_request [104, 105]))
            (opened ''voice_7_42.mp3''
              \<lparr>trace = [GetFile ''a1'', ReplyText Processing], files = {}, raised = None\<rparr>)))"
    using try_summarized [where w = calm and p = "''voice_7_42.mp3''" and t = "[104, 105]"
        and th = "[49, 46]"]
    by (simp add: handle_voice_started [OF sample_classify] sample_path calm_def strip_hello)
  then show ?thesis
    by (simp add: remove_and_return_def os_remove_def emit_def opened_def)
qed

lemma paths_of_run:
  assumes "ev \<in> set (trace (handle_voice w fs m))" "path_of ev = Some p"
  shows "\<exists>fid ext. classify m = Accept fid ext \<and> p = file_path m ext"
proof (cases rule: handle_voice_cases [where m = m and w = w])
  case rejected
  then show ?thesis using assms by (auto simp: handle_voice_rejected)
next
  case (no_file fid ext e)
  then show ?thesis using assms by (auto simp: handle_voice_no_file)
next
  case (no_ack fid ext e)
  then show ?thesis using assms by (auto simp: handle_voice_no_ack)
next
  case (download_failed fid ext e wrote)
  then show ?thesis using assms
    by (auto simp: handle_voice_started try_download_failed sel split: if_splits)
next
  case (transcribe_failed fid ext e)
  then show ?thesis using assms
    by (auto simp: handle_voice_started try_transcribe_failed sel opened_sel split: if_splits)
next
  case (empty fid ext t)
  then show ?thesis using assms
    by (cases "edit_text w NotRecognized")
      (auto simp: handle_voice_started try_empty sel opened_sel split: if_splits)
next
  case (summarize_failed fid ext t e)
  then show ?thesis using assms
    by (auto simp: handle_voice_started try_summarize_failed sel opened_sel split: if_splits)
next
  case (summarized fid ext t th)
  then show ?thesis using assms
    by (cases "edit_text w (Result t th)")
      (auto simp: handle_voice_started try_summarized sel opened_sel split: if_splits)
qed

lemma download_in_trace:
  assumes "classify m = Accept fid ext" "get_file w fid = None" "reply_text w Processing = None"
  shows "Download (file_path m ext) \<in> set (trace (handle_voice w fs m))"
proof (cases rule: handle_voice_cases [where m = m and w = w])
  case rejected
  then show ?thesis using assms by simp
next
  case (no_file fid' ext' e)
  then show ?thesis using assms by simp
next
  case (no_ack fid' ext' e)
  then show ?thesis using assms by simp
next
  case (download_failed fid' ext' e wrote)
  then show ?thesis using assms
    by (simp add: handle_voice_started try_download_failed sel)
next
  case (transcribe_failed fid' ext' e)
  then show ?thesis using assms
    by (simp add: handle_voice_started try_transcribe_failed sel opened_sel)
next
  case (empty fid' ext' t)
  then show ?thesis using assms
    by (cases "edit_text w NotRecognized")
      (simp_all add: handle_voice_started try_empty sel opened_sel)
next
  case (summarize_failed fid' ext' t e)
  then show ?thesis using assms
    by (simp add: handle_voice_started try_summarize_failed sel opened_sel)
next
  case (summarized fid' ext' t th)
  then show ?thesis using assms
    by (cases "edit_text w (Result t th)")
      (simp_all add: handle_voice_started try_summarized sel opened_sel)
qed

lemma later_classify: "classify later_msg = Accept ''a1'' ''mp3''"
  by (simp add: classify_def later_msg_def audio_msg_def truthy_def)

lemma later_path: "file_path later_msg ext = ''voice_7_43.'' @ ext"
  by (simp add: file_path_def later_msg_def audio_msg_def str_int_eval)

lemma temp_file_removed:
  assumes "edit_text w ErrorGeneric = None" "edit_text w ErrorLowQuality = None"
    and "classify m = Accept fid ext" "get_file w fid = None" "reply_text w Processing = None"
  shows "file_path m ext \<notin> files (handle_voice w fs m)"
proof -
  have em: "\<And>e. edit_text w (error_message e) = None"
    using assms(1,2) by (simp add: error_message_def)
  show ?thesis
  proof (cases rule: handle_voice_cases [where m = m and w = w])
    case rejected
    then show ?thesis using assms by simp
  next
    case (no_file fid' ext' e)
    then show ?thesis using assms by simp
  next
    case (no_ack fid' ext' e)
    then show ?thesis using assms by simp
  next
    case (download_failed fid' ext' e wrote)
    then show ?thesis using assms
      by (simp add: handle_voice_started try_download_failed sel em)
  next
    case (transcribe_failed fid' ext' e)
    then show ?thesis using assms
      by (simp add: handle_voice_started try_transcribe_failed sel opened_sel em)
  next
    case (empty fid' ext' t)
    then show ?thesis using assms
      by (cases "edit_text w NotRecognized")
        (simp_all add: handle_voice_started try_empty sel opened_sel em)
  next
    case (summarize_failed fid' ext' t e)
    then show ?thesis using assms
      by (simp add: handle_voice_started try_summarize_failed sel opened_sel em)
  next
    case (summarized fid' ext' t th)
    then show ?thesis using assms
      by (cases "edit_text w (Result t th)")
        (simp_all add: handle_voice_started try_summarized sel opened_sel em)
  qed
qed

lemma status_reply_once:
  assumes "classify m = Accept fid ext" "get_file w fid = None"
  shows "filter is_reply (trace (handle_voice w fs m)) = [ReplyText Processing] \<and>
     length (filter (accepted_edit w) (trace (handle_voice w fs m))) \<le> 1"
proof (cases rule: handle_voice_cases [where m = m and w = w])
  case rejected
  then show ?thesis using assms by simp
next
  case (no_file fid' ext' e)
  then show ?thesis using assms by simp
next
  case (no_ack fid' ext' e)
  then show ?thesis using assms by (simp add: handle_voice_no_ack accepted_edit_def)
next
  case (download_failed fid' ext' e wrote)
  then show ?thesis using assms
    by (simp add: handle_voice_started try_download_failed sel accepted_edit_def)
next
  case (transcribe_failed fid' ext' e)
  then show ?thesis using assms
    by (simp add: handle_voice_started try_transcribe_failed sel opened_sel accepted_edit_def)
next
  case (empty fid' ext' t)
  then show ?thesis using assms
    by (cases "edit_text w NotRecognized")
      (simp_all add: handle_voice_started try_empty sel opened_sel accepted_edit_def)
next
  case (summarize_failed fid' ext' t e)
  then show ?thesis using assms
    by (simp add: handle_voice_started try_summarize_failed sel opened_sel accepted_edit_def)
next
  case (summarized fid' ext' t th)
  then show ?thesis using assms
    by (cases "edit_text w (Result t th)")
      (simp_all add: handle_voice_started try_summarized sel opened_sel accepted_edit_def)
qed

lemma other_document_not_dispatched:
  assumes "voice m = None" "audio m = None" "msg_text m = None" "document m = Some d"
    "\<not> startswith (case mime_type d of None \<Rightarrow> [] | Some t \<Rightarrow> t) ''audio/''"
  shows "dispatch handlers m = None"
  using assms by (auto simp: handlers_def truthy_def split: option.splits)

lemma other_document_in_handler:
  assumes "voice m = None" "audio m = None" "document m = Some d"
    "\<not> startswith (case mime_type d of None \<Rightarrow> [] | Some t \<Rightarrow> t) ''audio/''"
  shows "handle_voice w fs m =
     \<lparr>trace = [ReplyText Unsupported], files = fs, raised = reply_text w Unsupported\<rparr>"
  using assms by (simp add: handle_voice_rejected classify_other_document)


section \<open>Claims\<close>

text \<open>
  C1. The claim is that the temporary file is deleted on every way out of the handler,
  also after an error of the transcription step. The code removes the file after the edit of
  the Status Reply (lines 155--159), so an exception of that edit skips the removal: when
  the transcription call raises and the edit in the except block raises too, the handler
  is left through line 155 and \<open>voice_7_42.mp3\<close> stays in the working directory.
  (\<open>temp_file_removed\<close> shows the removal in every world that accepts the two error edits.)
\<close>

theorem temp_file_left_behind:
  "trace (handle_voice outage {} (audio_msg None)) =
     [GetFile ''a1'', ReplyText Processing, Download ''voice_7_42.mp3'',
      OpenRead ''voice_7_42.mp3'', Transcribe ''voice_7_42.mp3'',
      LogError ''Connection error.'', EditText ErrorGeneric] \<and>
   ''voice_7_42.mp3'' \<in> files (handle_voice outage {} (audio_msg None)) \<and>
   raised (handle_voice outage {} (audio_msg None)) = Some (Exception ''Timed out'')"
proof -
  have "handle_voice outage {} (audio_msg None) =
      except_block outage ''voice_7_42.mp3'' (Exception ''Connection error.'')
        (opened ''voice_7_42.mp3''
          \<lparr>trace = [GetFile ''a1'', ReplyText Processing], files = {}, raised = None\<rparr>)"
    using try_transcribe_failed [where w = outage and p = "''voice_7_42.mp3''"
        and e = "Exception ''Connection error.''"]
    by (simp add: handle_voice_started [OF sample_classify] sample_path outage_def calm_def)
  then show ?thesis
    by (simp add: sel opened_sel error_message_def signature_not_found outage_def calm_def)
qed

text \<open>
  C2. The claim is that an event with a document of a MIME type outside \<open>audio/\<close>, such
  as \<open>text/plain\<close>, is answered with the unsupported-input text and not downloaded.
  \<open>handle_voice\<close> does that when it is called (\<open>other_document_in_handler\<close>), but
  \<open>main\<close> registers it for documents under the filter \<open>Document.AUDIO\<close> only, and no
  other handler accepts a message without text: the event is dispatched to no handler and the
  process makes no call at all, so it sends nothing.
\<close>

theorem text_document_ignored:
  "failure (main both_secrets) = None \<and>
   dispatch handlers (document_msg (Some ''notes.txt'') (Some ''text/plain'')) = None \<and>
   serve both_secrets calm {} (document_msg (Some ''notes.txt'') (Some ''text/plain'')) =
     \<lparr>trace = [], files = {}, raised = None\<rparr>"
proof -
  have d: "dispatch handlers (document_msg (Some ''notes.txt'') (Some ''text/plain'')) = None"
    by (rule other_document_not_dispatched
        [where d = "\<lparr>file_id = ''d1'', file_name = Some ''notes.txt'',
           mime_type = Some ''text/plain''\<rparr>"])
      (simp_all add: document_msg_def startswith_def)
  have st: "steps (main both_secrets) =
      BuildApplication ''123:abc'' # map AddHandler handlers @ [Print, RunPolling]"
    by (simp add: main_def both_secrets_def truthy_def)
  have hs: "[h. AddHandler h \<leftarrow> steps (main both_secrets)] = handlers"
    unfolding st by (simp add: handlers_def)
  have "RunPolling \<in> set (steps (main both_secrets))" unfolding st by simp
  then show ?thesis
    using d hs by (simp add: serve_def process_update_def main_def both_secrets_def truthy_def)
qed

text \<open>
  C3. The claim is that exactly one Status Reply is sent for every inbound audio event.
  \<open>get_file\<close> is awaited before the Status Reply is sent and outside the try block
  (lines 71, 74, 85): when it raises, the handler is left with that exception and no reply
  has been sent. (\<open>status_reply_once\<close> shows that once \<open>get_file\<close> has returned there
  is one Status Reply and at most one accepted edit.)
\<close>

theorem no_status_reply:
  "handle_voice too_big {} (audio_msg None) =
     \<lparr>trace = [GetFile ''a1''], files = {}, raised = Some (Exception ''File is too big'')\<rparr> \<and>
   filter is_reply (trace (handle_voice too_big {} (audio_msg None))) = []"
  using handle_voice_no_file [where m = "audio_msg None" and fid = "''a1''" and ext = "''mp3''"
      and w = too_big and e = "Exception ''File is too big''" and fs = "{}"]
  by (simp add: sample_classify too_big_def calm_def)




text \<open>
  C5. In a started pipeline, let \<open>e\<close> be the exception raised by the download, by the
  transcription call or by the summarization call. The except clause runs once: the trace
  has one error log entry, for \<open>e\<close>, and one edit call for the Status Reply, with the
  low-quality text when \<open>str(e)\<close> contains \<open>Could not process audio\<close> and with the
  generic text otherwise. The outcome of the handler is the outcome of that edit: the handler
  returns normally when the platform accepts it, and when the edit raises, its exception is
  not caught and leaves the handler.
\<close>

theorem pipeline_failure_handled:
  assumes "classify m = Accept fid ext" "get_file w fid = None" "reply_text w Processing = None"
    and "(\<exists>wrote. download_to_drive w (file_path m ext) = Failed e wrote) \<or>
         (download_to_drive w (file_path m ext) = Written \<and>
            transcriptions_create w (file_path m ext) = Inl e) \<or>
         (\<exists>t. download_to_drive w (file_path m ext) = Written \<and>
            transcriptions_create w (file_path m ext) = Inr t \<and> strip t \<noteq> [] \<and>
            completions_create w (summary_request t) = Inl e)"
  shows "filter is_log_error (trace (handle_voice w fs m)) = [LogError (str e)] \<and>
     filter is_edit (trace (handle_voice w fs m)) =
       [EditText (if contains (str e) ''Could not process audio''
                  then ErrorLowQuality else ErrorGeneric)] \<and>
     raised (handle_voice w fs m) =
       edit_text w (if contains (str e) ''Could not process audio''
                    then ErrorLowQuality else ErrorGeneric)"
proof -
  let ?r = "handle_voice w fs m"
  have "filter is_log_error (trace ?r) = [LogError (str e)] \<and>
     filter is_edit (trace ?r) = [EditText (error_message e)] \<and>
     raised ?r = edit_text w (error_message e)"
    using assms(4)
  proof (elim disjE exE conjE)
    fix wrote assume "download_to_drive w (file_path m ext) = Failed e wrote"
    then show ?thesis using assms(1-3)
      by (simp add: handle_voice_started try_download_failed sel split: option.split)
  next
    assume "download_to_drive w (file_path m ext) = Written"
      "transcriptions_create w (file_path m ext) = Inl e"
    then show ?thesis using assms(1-3)
      by (simp add: handle_voice_started try_transcribe_failed sel opened_sel split: option.split)
  next
    fix t assume "download_to_drive w (file_path m ext) = Written"
      "transcriptions_create w (file_path m ext) = Inr t"
      "strip t \<noteq> []" "completions_create w (summary_request t) = Inl e"
    then show ?thesis using assms(1-3)
      by (simp add: handle_voice_started try_summarize_failed sel opened_sel split: option.split)
  qed
  then show ?thesis by (simp add: error_message_def)
qed

theorem pipeline_failure_handled_witness:
  "filter is_log_error (trace (handle_voice noisy {} (audio_msg None))) =
     [LogError ''Error code: 400 - Could not process audio''] \<and>
   filter is_edit (trace (handle_voice noisy {} (audio_msg None))) = [EditText ErrorLowQuality] \<and>
   raised (handle_voice noisy {} (audio_msg None)) = None \<and>
   filter is_edit (trace (handle_voice offline {} (audio_msg None))) = [EditText ErrorGeneric] \<and>
   raised (handle_voice offline {} (audio_msg None)) = None"
  using pipeline_failure_handled [where m = "audio_msg None" and fid = "''a1''" and ext = "''mp3''"
      and w = noisy and fs = "{}" and e = "Exception ''Error code: 400 - Could not process audio''"]
    pipeline_failure_handled [where m = "audio_msg None" and fid = "''a1''" and ext = "''mp3''"
      and w = offline and fs = "{}" and e = "Exception ''Connection error.''"]
  by (simp add: sample_classify sample_path noisy_def offline_def calm_def
      signature_found signature_not_found)

text \<open>
  The stronger statement for C5, that no exception ever leaves the handler after such a
  failure, fails: in \<open>cut_off\<close> the transcription call raises, the edit of line 155 raises too, and
  the handler is left with the exception of the edit.
\<close>

theorem failure_leaves_handler:
  "transcriptions_create cut_off ''voice_7_42.mp3'' =
     Inl (Exception ''Error code: 400 - Could not process audio'') \<and>
   trace (handle_voice cut_off {} (audio_msg None)) =
     [GetFile ''a1'', ReplyText Processing, Download ''voice_7_42.mp3'',
      OpenRead ''voice_7_42.mp3'', Transcribe ''voice_7_42.mp3'',
      LogError ''Error code: 400 - Could not process audio'', EditText ErrorLowQuality] \<and>
   raised (handle_voice cut_off {} (audio_msg None)) = Some (Exception ''Timed out'')"
proof -
  have "handle_voice cut_off {} (audio_msg None) =
      except_block cut_off ''voice_7_42.mp3''
        (Exception ''Error code: 400 - Could not process audio'')
        (opened ''voice_7_42.mp3''
          \<lparr>trace = [GetFile ''a1'', ReplyText Processing], files = {}, raised = None\<rparr>)"
    using try_transcribe_failed [where w = cut_off and p = "''voice_7_42.mp3''"
        and e = "Exception ''Error code: 400 - Could not process audio''"]
    by (simp add: handle_voice_started [OF sample_classify] sample_path cut_off_def noisy_def
        calm_def)
  then show ?thesis
    by (simp add: sel opened_sel error_message_def signature_found cut_off_def noisy_def calm_def)
qed

text \<open>
  C6. A voice attachment always gets the extension \<open>ogg\<close>, whatever else the event
  carries. An audio attachment, and a document attachment of an audio MIME type, with a
  declared file name gets the part of that name after its last dot, character by character
  as it stands (\<open>clip.WAV\<close> gives \<open>WAV\<close>). Without a declared file name the extension
  is the fixed fallback of that branch. A declared file name is one that the test of lines 75
  and 86 accepts: it is set and not empty.
\<close>

theorem extension_inference:
  "(voice m = Some v \<longrightarrow> classify m = Accept (file_id v) ''ogg'') \<and>
   (voice m = None \<and> audio m = Some a \<and> file_name a = Some fn \<and> fn \<noteq> [] \<longrightarrow>
      classify m = Accept (file_id a) (rev (takeWhile (\<lambda>c. c \<noteq> CHR ''.'') (rev fn)))) \<and>
   (voice m = None \<and> audio m = None \<and> document m = Some d \<and> mime_type d = Some t \<and>
      startswith t ''audio/'' \<and> file_name d = Some fn \<and> fn \<noteq> [] \<longrightarrow>
      classify m = Accept (file_id d) (rev (takeWhile (\<lambda>c. c \<noteq> CHR ''.'') (rev fn)))) \<and>
   (voice m = None \<and> audio m = Some a \<and> file_name a = None \<longrightarrow>
      classify m = Accept (file_id a) ''mp3'') \<and>
   (voice m = None \<and> audio m = None \<and> document m = Some d \<and> mime_type d = Some t \<and>
      startswith t ''audio/'' \<and> file_name d = None \<longrightarrow>
      classify m = Accept (file_id d) ''ogg'')"
  by (simp add: classify_voice classify_audio classify_document truthy_def last_split)

theorem extension_inference_witness:
  "classify voice_msg = Accept ''v1'' ''ogg'' \<and>
   classify (audio_msg (Some ''clip.WAV'')) = Accept ''a1'' ''WAV'' \<and>
   classify (document_msg (Some ''talk.v2.Mp3'') (Some ''audio/mpeg'')) = Accept ''d1'' ''Mp3'' \<and>
   classify (audio_msg None) = Accept ''a1'' ''mp3'' \<and>
   classify (document_msg None (Some ''audio/mpeg'')) = Accept ''d1'' ''ogg''"
  using extension_inference [where m = voice_msg and v = "the (voice voice_msg)"]
    extension_inference [where m = "audio_msg (Some ''clip.WAV'')"
      and a = "the (audio (audio_msg (Some ''clip.WAV'')))" and fn = "''clip.WAV''"]
    extension_inference [where m = "document_msg (Some ''talk.v2.Mp3'') (Some ''audio/mpeg'')"
      and d = "the (document (document_msg (Some ''talk.v2.Mp3'') (Some ''audio/mpeg'')))"
      and t = "''audio/mpeg''" and fn = "''talk.v2.Mp3''"]
    extension_inference [where m = "audio_msg None" and a = "the (audio (audio_msg None))"]
    extension_inference [where m = "document_msg None (Some ''audio/mpeg'')"
      and d = "the (document (document_msg None (Some ''audio/mpeg'')))" and t = "''audio/mpeg''"]
  by (simp add: voice_msg_def audio_msg_def document_msg_def startswith_def)

text \<open>
  C7. When one of the two secrets is missing from the environment, \<open>main\<close> raises
  before it builds the application: no step is taken and \<open>run_polling\<close> is not entered.
  The same holds for a secret that is set to the empty string, which lines 175 and 178 treat
  as not set. When both secrets are set (and not empty), \<open>main\<close> builds the application,
  registers the five handlers and enters \<open>run_polling\<close>.
\<close>

theorem startup_check:
  "(getenv ''TELEGRAM_BOT_TOKEN'' = None \<or> getenv ''OPENAI_API_KEY'' = None \<longrightarrow>
      failure (main getenv) \<noteq> None \<and> steps (main getenv) = []) \<and>
   (\<not> truthy (getenv ''TELEGRAM_BOT_TOKEN'') \<or> \<not> truthy (getenv ''OPENAI_API_KEY'') \<longrightarrow>
      failure (main getenv) \<noteq> None \<and> steps (main getenv) = []) \<and>
   (truthy (getenv ''TELEGRAM_BOT_TOKEN'') \<and> truthy (getenv ''OPENAI_API_KEY'') \<longrightarrow>
      failure (main getenv) = None \<and>
      steps (main getenv) =
        BuildApplication (the (getenv ''TELEGRAM_BOT_TOKEN'')) # map AddHandler handlers @
        [Print, RunPolling])"
  by (auto simp: main_def Let_def truthy_def)

theorem startup_check_witness:
  "token_only ''OPENAI_API_KEY'' = None \<and> failure (main token_only) = Some (ValueError ''OPENAI_API_KEY'') \<and>
   steps (main token_only) = [] \<and>
   key_only ''TELEGRAM_BOT_TOKEN'' = None \<and>
   failure (main key_only) = Some (ValueError ''TELEGRAM_BOT_TOKEN'') \<and>
   steps (main key_only) = [] \<and>
   truthy (both_secrets ''TELEGRAM_BOT_TOKEN'') \<and> truthy (both_secrets ''OPENAI_API_KEY'') \<and>
   failure (main both_secrets) = None \<and> last (steps (main both_secrets)) = RunPolling"
  using startup_check [of token_only] startup_check [of key_only] startup_check [of both_secrets]
  by (simp add: token_only_def key_only_def both_secrets_def truthy_def main_def)

text \<open>
  C8. Every local path that an invocation works on (download, open, transcription, removal)
  is the string \<open>voice_<chat id>_<message id>.<extension>\<close> built from the event alone, with
  the extension that the classification inferred; and the paths of two invocations whose
  events differ in the chat identifier or in the message identifier are different.
\<close>

theorem temporary_file_path:
  "(ev \<in> set (trace (handle_voice w fs m)) \<and> path_of ev = Some p \<longrightarrow>
      (\<exists>fid ext. classify m = Accept fid ext \<and>
         p = ''voice_'' @ str_int (chat_id m) @ ''_'' @ str_int (message_id m) @ ''.'' @ ext)) \<and>
   (ev \<in> set (trace (handle_voice w fs m)) \<and> path_of ev = Some p \<and>
    ev' \<in> set (trace (handle_voice w' fs' m')) \<and> path_of ev' = Some p' \<and>
    (chat_id m \<noteq> chat_id m' \<or> message_id m \<noteq> message_id m') \<longrightarrow> p \<noteq> p')"
proof (intro conjI impI)
  assume "ev \<in> set (trace (handle_voice w fs m)) \<and> path_of ev = Some p"
  then show "\<exists>fid ext. classify m = Accept fid ext \<and>
      p = ''voice_'' @ str_int (chat_id m) @ ''_'' @ str_int (message_id m) @ ''.'' @ ext"
    using paths_of_run [of ev w fs m p] by (simp add: file_path_def)
next
  assume a: "ev \<in> set (trace (handle_voice w fs m)) \<and> path_of ev = Some p \<and>
    ev' \<in> set (trace (handle_voice w' fs' m')) \<and> path_of ev' = Some p' \<and>
    (chat_id m \<noteq> chat_id m' \<or> message_id m \<noteq> message_id m')"
  then obtain ext where p: "p = file_path m ext"
    using paths_of_run [of ev w fs m p] by blast
  from a obtain ext' where p': "p' = file_path m' ext'"
    using paths_of_run [of ev' w' fs' m' p'] by blast
  show "p \<noteq> p'"
  proof
    assume "p = p'"
    then have "chat_id m = chat_id m' \<and> message_id m = message_id m'"
      using file_path_inj [of m ext m' ext'] p p' by simp
    then show False using a by blast
  qed
qed

theorem temporary_file_path_witness:
  "Download ''voice_7_42.mp3'' \<in> set (trace (handle_voice calm {} (audio_msg None))) \<and>
   Download ''voice_7_43.mp3'' \<in> set (trace (handle_voice noisy {} later_msg)) \<and>
   message_id (audio_msg None) \<noteq> message_id later_msg \<and>
   (\<exists>fid ext. classify (audio_msg None) = Accept fid ext \<and>
      ''voice_7_42.mp3'' = ''voice_'' @ str_int (chat_id (audio_msg None)) @ ''_'' @
        str_int (message_id (audio_msg None)) @ ''.'' @ ext) \<and>
   ''voice_7_42.mp3'' \<noteq> ''voice_7_43.mp3''"
proof -
  have a: "Download ''voice_7_42.mp3'' \<in> set (trace (handle_voice calm {} (audio_msg None)))"
    using download_in_trace [OF sample_classify, of calm "{}"]
    by (simp add: calm_def sample_path)
  have b: "Download ''voice_7_43.mp3'' \<in> set (trace (handle_voice noisy {} later_msg))"
    using download_in_trace [OF later_classify, of noisy "{}"]
    by (simp add: noisy_def calm_def later_path)
  have c: "message_id (audio_msg None) \<noteq> message_id later_msg"
    by (simp add: later_msg_def audio_msg_def)
  show ?thesis
    using a b c
      temporary_file_path [where ev = "Download ''voice_7_42.mp3''" and p = "''voice_7_42.mp3''"
        and w = calm and fs = "{}" and m = "audio_msg None"
        and ev' = "Download ''voice_7_43.mp3''" and p' = "''voice_7_43.mp3''"
        and w' = noisy and fs' = "{}" and m' = later_msg]
    by simp
qed

text \<open>
  C9. Whenever the summarization call is in the trace, the trace begins with the fetch, the
  Status Reply, the download, the open, the transcription call and then the summarization
  call, the transcription call has returned a transcript that is not blank, and the request
  is the one of lines 121--129 for that transcript: model \<open>gpt-4o-mini\<close>, the system
  prompt, the user content made of the fixed request line and the transcript, temperature
  0.3 and at most 1000 tokens. No second summarization call follows.
\<close>

theorem summarize_after_transcribe:
  assumes "Summarize req \<in> set (trace (handle_voice w fs m))"
  shows "\<exists>fid ext t rest. classify m = Accept fid ext \<and>
      transcriptions_create w (file_path m ext) = Inr t \<and> strip t \<noteq> [] \<and>
      req = \<lparr>model = ''gpt-4o-mini'',
             messages = [(''system'', SYSTEM_PROMPT), (''user'', ExtractTheses t)],
             temperature = 3 / 10, max_tokens = 1000\<rparr> \<and>
      trace (handle_voice w fs m) =
        [GetFile fid, ReplyText Processing, Download (file_path m ext), OpenRead (file_path m ext),
         Transcribe (file_path m ext), Summarize req] @ rest \<and>
      (\<forall>ev \<in> set rest. \<not> is_summarize ev)"
proof (cases rule: handle_voice_cases [where m = m and w = w])
  case rejected
  then show ?thesis using assms by (simp add: handle_voice_rejected)
next
  case (no_file fid ext e)
  then show ?thesis using assms by (simp add: handle_voice_no_file)
next
  case (no_ack fid ext e)
  then show ?thesis using assms by (simp add: handle_voice_no_ack)
next
  case (download_failed fid ext e wrote)
  then show ?thesis using assms
    by (simp add: handle_voice_started try_download_failed sel split: if_splits)
next
  case (transcribe_failed fid ext e)
  then show ?thesis using assms
    by (simp add: handle_voice_started try_transcribe_failed sel opened_sel split: if_splits)
next
  case (empty fid ext t)
  then show ?thesis using assms
    by (simp add: handle_voice_started try_empty sel opened_sel split: if_splits option.splits)
next
  case (summarize_failed fid ext t e)
  then show ?thesis using assms
    by (simp add: handle_voice_started try_summarize_failed sel opened_sel summary_request_def)
next
  case (summarized fid ext t th)
  then show ?thesis using assms
    by (cases "edit_text w (Result t th)")
      (auto simp: handle_voice_started try_summarized sel opened_sel summary_request_def)
qed

theorem summarize_after_transcribe_witness:
  "Summarize (summary_request [104, 105]) \<in> set (trace (handle_voice calm {} (audio_msg None))) \<and>
   (\<exists>fid ext t rest. classify (audio_msg None) = Accept fid ext \<and>
      transcriptions_create calm (file_path (audio_msg None) ext) = Inr t \<and> strip t \<noteq> [] \<and>
      summary_request [104, 105] =
        \<lparr>model = ''gpt-4o-mini'',
         messages = [(''system'', SYSTEM_PROMPT), (''user'', ExtractTheses t)],
         temperature = 3 / 10, max_tokens = 1000\<rparr> \<and>
      trace (handle_voice calm {} (audio_msg None)) =
        [GetFile fid, ReplyText Processing, Download (file_path (audio_msg None) ext),
         OpenRead (file_path (audio_msg None) ext), Transcribe (file_path (audio_msg None) ext),
         Summarize (summary_request [104, 105])] @ rest \<and>
      (\<forall>ev \<in> set rest. \<not> is_summarize ev))"
proof -
  have mem: "Summarize (summary_request [104, 105]) \<in>
      set (trace (handle_voice calm {} (audio_msg None)))"
    by (simp add: calm_run)
  show ?thesis using mem summarize_after_transcribe [OF mem] by blast
qed

text \<open>
  C10. The fallback is not one value: an audio attachment without a declared file name
  gets \<open>mp3\<close>, a document attachment without one gets \<open>ogg\<close>. A declared file name
  that contains no dot is taken whole as the extension. As in C6, a file name is declared when
  it is set and not empty.
\<close>

theorem fallback_extensions:
  "(voice m = None \<and> audio m = Some a \<and> \<not> truthy (file_name a) \<longrightarrow>
      classify m = Accept (file_id a) ''mp3'') \<and>
   (voice m = None \<and> audio m = None \<and> document m = Some d \<and> mime_type d = Some t \<and>
      startswith t ''audio/'' \<and> \<not> truthy (file_name d) \<longrightarrow>
      classify m = Accept (file_id d) ''ogg'') \<and>
   (voice m = None \<and> audio m = Some a \<and> file_name a = Some fn \<and> fn \<noteq> [] \<and>
      CHR ''.'' \<notin> set fn \<longrightarrow> classify m = Accept (file_id a) fn) \<and>
   (voice m = None \<and> audio m = None \<and> document m = Some d \<and> mime_type d = Some t \<and>
      startswith t ''audio/'' \<and> file_name d = Some fn \<and> fn \<noteq> [] \<and>
      CHR ''.'' \<notin> set fn \<longrightarrow> classify m = Accept (file_id d) fn)"
  by (simp add: classify_audio classify_document truthy_def split_no_sep)

theorem fallback_extensions_witness:
  "classify (audio_msg None) = Accept ''a1'' ''mp3'' \<and>
   classify (document_msg None (Some ''audio/mpeg'')) = Accept ''d1'' ''ogg'' \<and>
   classify (audio_msg (Some ''clip'')) = Accept ''a1'' ''clip'' \<and>
   classify (document_msg (Some ''clip'') (Some ''audio/mpeg'')) = Accept ''d1'' ''clip''"
  using fallback_extensions [where m = "audio_msg None" and a = "the (audio (audio_msg None))"]
    fallback_extensions [where m = "document_msg None (Some ''audio/mpeg'')"
      and d = "the (document (document_msg None (Some ''audio/mpeg'')))" and t = "''audio/mpeg''"]
    fallback_extensions [where m = "audio_msg (Some ''clip'')"
      and a = "the (audio (audio_msg (Some ''clip'')))" and fn = "''clip''"]
    fallback_extensions [where m = "document_msg (Some ''clip'') (Some ''audio/mpeg'')"
      and d = "the (document (document_msg (Some ''clip'') (Some ''audio/mpeg'')))"
      and t = "''audio/mpeg''" and fn = "''clip''"]
  by (simp add: audio_msg_def document_msg_def startswith_def truthy_def)

end
